theory Spec2Isabelle
  imports Complex_Main "HOL-Library.AList" "HOL-Library.Char_ord" "HOL-Library.List_Lexorder"
begin

section \<open>Library values the PsiNet code works with\<close>

subsection \<open>Timestamps\<close>

text \<open>
  Every timestamp field of the code is a string written by \<^verbatim>\<open>datetime.isoformat()\<close> on a
  naive UTC datetime, with or without a trailing \<^verbatim>\<open>"Z"\<close>. Such a string is modelled
  by the instant it denotes (microseconds since the epoch) and by whether the \<^verbatim>\<open>"Z"\<close>
  is there. The clock \<^verbatim>\<open>datetime.utcnow()\<close> is an argument \<open>now\<close> of every operation that
  reads it.
\<close>

datatype isotime = IsoTime (instant: int) (z_suffix: bool)

datatype raised = DatetimeError | RuntimeError string

text \<open>\<^verbatim>\<open>s.replace('Z', '')\<close>\<close>

definition strip_z :: "isotime \<Rightarrow> isotime" where
  "strip_z s = IsoTime (instant s) False"

text \<open>
  \<^verbatim>\<open>datetime.utcnow() > datetime.fromisoformat(s)\<close>. On a string that ends in \<^verbatim>\<open>"Z"\<close>
  this raises: before Python 3.11 \<^verbatim>\<open>fromisoformat\<close> rejects the string (ValueError), from
  3.11 on it returns an offset-aware datetime and the comparison with the naive
  \<^verbatim>\<open>utcnow()\<close> raises TypeError.
\<close>

definition utcnow_after :: "int \<Rightarrow> isotime \<Rightarrow> raised + bool" where
  "utcnow_after now s = (if z_suffix s then Inl DatetimeError else Inr (now > instant s))"

text \<open>\<^verbatim>\<open>timedelta(hours=h)\<close> and \<^verbatim>\<open>timedelta(days=d)\<close>, in microseconds.\<close>

definition timedelta_hours :: "int \<Rightarrow> int" where
  "timedelta_hours h = h * 3600000000"

definition timedelta_days :: "int \<Rightarrow> int" where
  "timedelta_days d = d * 86400000000"

subsection \<open>Truthiness of an optional string\<close>

text \<open>\<^verbatim>\<open>if s:\<close> on an \<^verbatim>\<open>Optional[str]\<close>: \<^verbatim>\<open>None\<close> and the empty string are false.\<close>

definition truthy :: "string option \<Rightarrow> bool" where
  "truthy s = (case s of None \<Rightarrow> False | Some x \<Rightarrow> x \<noteq> [])"

subsection \<open>JSON values, canonical serialisation and digests\<close>

text \<open>
  The payloads handed to \<^verbatim>\<open>json.dumps\<close>. A dict is an association list in insertion
  order. \<^verbatim>\<open>json.dumps(d, sort_keys=True)\<close> emits the members of every dict in the order
  of their keys; that reordering is \<open>sort_keys\<close> below. The encoder proper (separators,
  string escapes) and SHA-256 are library code and are parameters of the model. Numbers
  are integers here; no payload of the operations modelled depends on a float.
\<close>

datatype json =
    JNull
  | JBool bool
  | JInt int
  | JString string
  | JArray "json list"
  | JObject "(string \<times> json) list"

fun sort_keys :: "json \<Rightarrow> json" where
  "sort_keys (JArray xs) = JArray (map sort_keys xs)"
| "sort_keys (JObject kvs) = JObject (sort_key fst (map (\<lambda>(k, v). (k, sort_keys v)) kvs))"
| "sort_keys j = j"

record pylib =
  json_encode :: "json \<Rightarrow> string"
  sha256_hexdigest :: "string \<Rightarrow> string"

definition json_dumps_sorted :: "pylib \<Rightarrow> json \<Rightarrow> string" where
  "json_dumps_sorted L j = json_encode L (sort_keys j)"

definition json_opt :: "string option \<Rightarrow> json" where
  "json_opt s = (case s of None \<Rightarrow> JNull | Some x \<Rightarrow> JString x)"

subsection \<open>Decimal amounts\<close>

text \<open>
  An amount is a string that the code reads with \<^verbatim>\<open>Decimal(...)\<close> and writes back with
  \<^verbatim>\<open>str(...)\<close>; both are exact and keep the coefficient and the exponent. A finite
  \<^verbatim>\<open>Decimal\<close> is modelled by its signed coefficient and its exponent, and denotes
  \<open>coeff * 10 ^ expo\<close>. The sign is part of the literal, so an amount may be
  negative. Special values (NaN, Infinity), the sign of a zero and exponents beyond the
  context's range are outside the model.
\<close>

datatype decimal = Dec (coeff: int) (expo: int)


text \<open>The precision of the default context, \<^verbatim>\<open>getcontext().prec\<close>.\<close>

definition prec :: nat where
  "prec = 28"

text \<open>The number of decimal digits of a coefficient.\<close>

function ndigits :: "nat \<Rightarrow> nat" where
  "ndigits n = (if n < 10 then 1 else Suc (ndigits (n div 10)))"
  by pat_completeness auto
termination
  by (relation "measure (\<lambda>n. n)") auto

declare ndigits.simps [simp del]

text \<open>The quotient \<open>m / g\<close> rounded to the nearest integer, a tie to the even one (ROUND\_HALF\_EVEN).\<close>

definition round_half_even :: "nat \<Rightarrow> nat \<Rightarrow> nat" where
  "round_half_even m g =
     (let q = m div g; r = m mod g
      in if 2 * r < g then q
         else if 2 * r > g then q + 1
         else if even q then q else q + 1)"

text \<open>
  The rounding every arithmetic result goes through: a coefficient of more than \<open>prec\<close>
  digits loses its last digits, rounded half even; when the rounding carries into one
  more digit, the coefficient is cut again and the exponent moves by one.
\<close>

definition fix_prec :: "decimal \<Rightarrow> decimal" where
  "fix_prec d =
     (let m = nat \<bar>coeff d\<bar>; n = ndigits m
      in if n \<le> prec then d
         else
           let k = n - prec; q = round_half_even m (10 ^ k)
           in if q = 10 ^ prec
              then Dec (sgn (coeff d) * 10 ^ (prec - 1)) (expo d + int k + 1)
              else Dec (sgn (coeff d) * int q) (expo d + int k))"

text \<open>The exact difference, written at the smaller of the two exponents.\<close>

definition exact_sub :: "decimal \<Rightarrow> decimal \<Rightarrow> decimal" where
  "exact_sub a b =
     (let e = min (expo a) (expo b)
      in Dec (coeff a * 10 ^ nat (expo a - e) - coeff b * 10 ^ nat (expo b - e)) e)"

text \<open>\<^verbatim>\<open>Decimal(a) - Decimal(b)\<close> in the default context.\<close>

definition dec_sub :: "decimal \<Rightarrow> decimal \<Rightarrow> decimal" where
  "dec_sub a b = fix_prec (exact_sub a b)"

text \<open>\<^verbatim>\<open>Decimal(a) >= Decimal(b)\<close>: the comparison is exact.\<close>

definition dec_ge :: "decimal \<Rightarrow> decimal \<Rightarrow> bool" where
  "dec_ge a b =
     (let e = min (expo a) (expo b)
      in coeff a * 10 ^ nat (expo a - e) \<ge> coeff b * 10 ^ nat (expo b - e))"

section \<open>psinet\_core: access tokens\<close>

datatype AccessCapability = READ | WRITE | SHARE | DELEGATE | ADMIN

fun AccessCapability_value :: "AccessCapability \<Rightarrow> string" where
  "AccessCapability_value READ = ''read''"
| "AccessCapability_value WRITE = ''write''"
| "AccessCapability_value SHARE = ''share''"
| "AccessCapability_value DELEGATE = ''delegate''"
| "AccessCapability_value ADMIN = ''admin''"

record AccessToken =
  capability :: string
  granted_to :: string
  granted_by :: string
  expires :: isotime
  context_id :: "string option"
  signature :: "string option"

text \<open>
  \<^verbatim>\<open>AccessToken.is_expired\<close>: the stored string is parsed as it is, the \<^verbatim>\<open>"Z"\<close> is not
  removed first.
\<close>

definition is_expired :: "int \<Rightarrow> AccessToken \<Rightarrow> raised + bool" where
  "is_expired now token = utcnow_after now (AccessToken.expires token)"

text \<open>\<^verbatim>\<open>PsiNetNode.check_access(token, capability, context_id=None)\<close>\<close>

definition check_access ::
  "int \<Rightarrow> AccessToken \<Rightarrow> AccessCapability \<Rightarrow> string option \<Rightarrow> raised + bool" where
  "check_access now token cap ctx_id =
     (case is_expired now token of
        Inl e \<Rightarrow> Inl e
      | Inr expired \<Rightarrow>
          if expired then Inr False
          else if AccessToken.capability token \<noteq> AccessCapability_value cap then Inr False
          else if truthy ctx_id \<and> AccessToken.context_id token \<noteq> ctx_id then Inr False
          else Inr True)"

section \<open>psinet\_core: context units and chains\<close>

datatype ContextType = CONVERSATION | MEMORY | SKILL | KNOWLEDGE | DOCUMENT | EMBEDDING

fun ContextType_value :: "ContextType \<Rightarrow> string" where
  "ContextType_value CONVERSATION = ''conversation''"
| "ContextType_value MEMORY = ''memory''"
| "ContextType_value SKILL = ''skill''"
| "ContextType_value KNOWLEDGE = ''knowledge''"
| "ContextType_value DOCUMENT = ''document''"
| "ContextType_value EMBEDDING = ''embedding''"

text \<open>
  \<^verbatim>\<open>ContextUnit\<close>. The field \<^verbatim>\<open>id\<close> is \<open>unit_id\<close> and \<^verbatim>\<open>type\<close> is \<open>unit_type\<close> here; the
  timestamp is kept as the string the unit carries, since it is only hashed.
\<close>

record ContextUnit =
  unit_id :: string
  unit_type :: string
  content :: json
  owner :: string
  previous :: "string option"
  timestamp :: string
  signature :: "string option"
  metadata :: "(string \<times> json) list option"
  storage_refs :: "(string \<times> string) list option"

record ContextChain =
  chain_id :: string
  contexts :: "string list"
  owner :: string
  created :: string

text \<open>
  \<^verbatim>\<open>PsiNetNode\<close>: the identity and the in-memory stores. A dict is an association list in
  insertion order, read with \<open>map_of\<close> and written with \<open>AList.update\<close>. The private key
  is the signing function it gives (payload to base64 signature); the files written
  under \<^verbatim>\<open>storage_dir\<close> are not part of the model.
\<close>

record PsiNetNode =
  did :: "string option"
  private_key :: "(string \<Rightarrow> string) option"
  contexts :: "(string \<times> ContextUnit) list"
  chains :: "(string \<times> ContextChain) list"
  access_tokens :: "AccessToken list"

text \<open>\<^verbatim>\<open>ContextUnit.content_hash\<close>\<close>

definition content_hash :: "pylib \<Rightarrow> ContextUnit \<Rightarrow> string" where
  "content_hash L u =
     sha256_hexdigest L (json_dumps_sorted L (JObject
       [(''type'', JString (unit_type u)),
        (''content'', content u),
        (''owner'', JString (ContextUnit.owner u)),
        (''previous'', json_opt (previous u)),
        (''timestamp'', JString (timestamp u))]))"

text \<open>\<^verbatim>\<open>PsiNetNode._sign_context\<close>\<close>

definition sign_context :: "pylib \<Rightarrow> PsiNetNode \<Rightarrow> ContextUnit \<Rightarrow> raised + string" where
  "sign_context L node u =
     (case private_key node of
        None \<Rightarrow> Inl (RuntimeError ''Private key not available'')
      | Some sign \<Rightarrow>
          Inr (sign (json_dumps_sorted L (JObject
            [(''id'', JString (unit_id u)),
             (''type'', JString (unit_type u)),
             (''owner'', JString (ContextUnit.owner u)),
             (''timestamp'', JString (timestamp u)),
             (''content_hash'', JString (content_hash L u))]))))"

text \<open>
  \<^verbatim>\<open>PsiNetNode.create_context(context_type, content, previous=None, metadata=None)\<close>.
  \<open>crypto_available\<close> is the module flag \<^verbatim>\<open>CRYPTO_AVAILABLE\<close> and \<open>ts\<close> the string
  \<^verbatim>\<open>datetime.utcnow().isoformat() + "Z"\<close> of the call. The result is the unit returned
  and the node with the unit stored under its id; the copy written to disk by
  \<^verbatim>\<open>_save_context\<close> is not modelled.
\<close>

definition create_context ::
  "pylib \<Rightarrow> bool \<Rightarrow> string \<Rightarrow> PsiNetNode \<Rightarrow> ContextType \<Rightarrow> json \<Rightarrow> string option \<Rightarrow>
   (string \<times> json) list option \<Rightarrow> raised + (ContextUnit \<times> PsiNetNode)" where
  "create_context L crypto_available ts node context_type cont prev meta =
     (case did node of
        None \<Rightarrow> Inl (RuntimeError ''Identity required. Call generate_identity() first.'')
      | Some d \<Rightarrow>
          if d = [] then Inl (RuntimeError ''Identity required. Call generate_identity() first.'')
          else
            let c0 = \<lparr>unit_id = [],
                      unit_type = ContextType_value context_type,
                      content = cont,
                      owner = d,
                      previous = prev,
                      timestamp = ts,
                      signature = None,
                      metadata = Some (case meta of None \<Rightarrow> [] | Some m \<Rightarrow> m),
                      storage_refs = Some []\<rparr>;
                c1 = c0\<lparr>unit_id := content_hash L c0\<rparr>
            in if crypto_available \<and> private_key node \<noteq> None
               then (case sign_context L node c1 of
                       Inl e \<Rightarrow> Inl e
                     | Inr sg \<Rightarrow>
                         let c2 = c1\<lparr>ContextUnit.signature := Some sg\<rparr>
                         in Inr (c2, node\<lparr>PsiNetNode.contexts :=
                                   AList.update (unit_id c2) c2 (PsiNetNode.contexts node)\<rparr>))
               else Inr (c1, node\<lparr>PsiNetNode.contexts :=
                           AList.update (unit_id c1) c1 (PsiNetNode.contexts node)\<rparr>))"

text \<open>
  \<^verbatim>\<open>PsiNetNode.verify_chain\<close>: the loop over \<^verbatim>\<open>chain.contexts\<close>, with the running
  \<^verbatim>\<open>previous_id\<close> as an argument. Each \<^verbatim>\<open>return False\<close> of the loop body is a \<open>False\<close>
  branch that does not recurse.
\<close>

fun verify_walk ::
  "pylib \<Rightarrow> (string \<times> ContextUnit) list \<Rightarrow> string option \<Rightarrow> string list \<Rightarrow> bool" where
  "verify_walk L store previous_id [] = True"
| "verify_walk L store previous_id (i # rest) =
     (case map_of store i of
        None \<Rightarrow> False
      | Some c \<Rightarrow>
          if previous c \<noteq> previous_id then False
          else if unit_id c \<noteq> content_hash L c then False
          else verify_walk L store (Some i) rest)"

definition verify_chain :: "pylib \<Rightarrow> PsiNetNode \<Rightarrow> string \<Rightarrow> bool" where
  "verify_chain L node cid =
     (case map_of (chains node) cid of
        None \<Rightarrow> False
      | Some chain \<Rightarrow> verify_walk L (PsiNetNode.contexts node) None (ContextChain.contexts chain))"

text \<open>\<^verbatim>\<open>','.join(xs)\<close>\<close>

fun join_comma :: "string list \<Rightarrow> string" where
  "join_comma [] = []"
| "join_comma [x] = x"
| "join_comma (x # y # ys) = x @ '','' @ join_comma (y # ys)"

text \<open>
  \<^verbatim>\<open>PsiNetNode.create_chain(context_ids)\<close>; \<open>clock\<close> is the text of \<^verbatim>\<open>time.time()\<close> and
  \<open>ts\<close> the creation timestamp string. The unit linkage is not looked at here.
\<close>

definition create_chain ::
  "pylib \<Rightarrow> string \<Rightarrow> string \<Rightarrow> PsiNetNode \<Rightarrow> string list \<Rightarrow> raised + (ContextChain \<times> PsiNetNode)" where
  "create_chain L clock ts node context_ids =
     (case did node of
        None \<Rightarrow> Inl (RuntimeError ''Identity required'')
      | Some d \<Rightarrow>
          if d = [] then Inl (RuntimeError ''Identity required'')
          else
            let ch = \<lparr>chain_id = take 16 (sha256_hexdigest L
                                   (d @ '':'' @ join_comma context_ids @ '':'' @ clock)),
                      contexts = context_ids,
                      owner = d,
                      created = ts\<rparr>
            in Inr (ch, node\<lparr>chains := AList.update (chain_id ch) ch (chains node)\<rparr>))"

text \<open>
  \<^verbatim>\<open>PsiNetNode.grant_access(capability, granted_to_did, context_id=None,
  expires_in_hours=24)\<close>. The expiry is written as \<^verbatim>\<open>expires.isoformat() + "Z"\<close>. The
  signed payload names the expiry by the text \<open>expires_text\<close> of that string.
\<close>

definition grant_access ::
  "pylib \<Rightarrow> bool \<Rightarrow> int \<Rightarrow> string \<Rightarrow> PsiNetNode \<Rightarrow> AccessCapability \<Rightarrow> string \<Rightarrow> string option \<Rightarrow>
   int \<Rightarrow> raised + (AccessToken \<times> PsiNetNode)" where
  "grant_access L crypto_available now expires_text node cap granted_to_did ctx_id expires_in_hours =
     (case did node of
        None \<Rightarrow> Inl (RuntimeError ''Identity required'')
      | Some d \<Rightarrow>
          if d = [] then Inl (RuntimeError ''Identity required'')
          else
            let t0 = \<lparr>capability = AccessCapability_value cap,
                      granted_to = granted_to_did,
                      granted_by = d,
                      expires = IsoTime (now + timedelta_hours expires_in_hours) True,
                      context_id = ctx_id,
                      signature = None\<rparr>;
                t1 = (case private_key node of
                        None \<Rightarrow> t0
                      | Some sign \<Rightarrow>
                          if crypto_available
                          then t0\<lparr>AccessToken.signature := Some (sign (json_dumps_sorted L (JObject
                                 [(''capability'', JString (capability t0)),
                                  (''granted_to'', JString (granted_to t0)),
                                  (''granted_by'', JString (granted_by t0)),
                                  (''expires'', JString expires_text),
                                  (''context_id'', json_opt (AccessToken.context_id t0))])))\<rparr>
                          else t0)
            in Inr (t1, node\<lparr>access_tokens := access_tokens node @ [t1]\<rparr>))"

section \<open>psinet\_payment: data\<close>

datatype PaymentMethod = BITCOIN | ETHEREUM | LIGHTNING | CUSTOM_TOKEN | ARWEAVE_AR | IPFS_FILECOIN

fun PaymentMethod_value :: "PaymentMethod \<Rightarrow> string" where
  "PaymentMethod_value BITCOIN = ''bitcoin''"
| "PaymentMethod_value ETHEREUM = ''ethereum''"
| "PaymentMethod_value LIGHTNING = ''lightning''"
| "PaymentMethod_value CUSTOM_TOKEN = ''custom_token''"
| "PaymentMethod_value ARWEAVE_AR = ''arweave_ar''"
| "PaymentMethod_value IPFS_FILECOIN = ''ipfs_filecoin''"

datatype PaymentStatus = PENDING | CONFIRMED | FAILED | EXPIRED | REFUNDED

fun PaymentStatus_value :: "PaymentStatus \<Rightarrow> string" where
  "PaymentStatus_value PENDING = ''pending''"
| "PaymentStatus_value CONFIRMED = ''confirmed''"
| "PaymentStatus_value FAILED = ''failed''"
| "PaymentStatus_value EXPIRED = ''expired''"
| "PaymentStatus_value REFUNDED = ''refunded''"

datatype PricingModel = FREE | PAY_PER_ACCESS | PAY_PER_QUERY | SUBSCRIPTION | PAY_PER_TOKEN | AUCTION

fun PricingModel_value :: "PricingModel \<Rightarrow> string" where
  "PricingModel_value FREE = ''free''"
| "PricingModel_value PAY_PER_ACCESS = ''pay_per_access''"
| "PricingModel_value PAY_PER_QUERY = ''pay_per_query''"
| "PricingModel_value SUBSCRIPTION = ''subscription''"
| "PricingModel_value PAY_PER_TOKEN = ''pay_per_token''"
| "PricingModel_value AUCTION = ''auction''"

record PaymentRequirement =
  pricing_model :: string
  amount :: decimal
  currency :: string
  recipient_address :: string
  expires :: "isotime option"
  description :: "string option"
  metadata :: "(string \<times> string) list option"

record PaymentReceipt =
  receipt_id :: string
  payment_requirement_id :: int
  payer_did :: string
  recipient_did :: string
  amount :: decimal
  currency :: string
  transaction_hash :: string
  status :: string
  timestamp :: isotime
  context_id :: "string option"
  signature :: "string option"
  metadata :: "(string \<times> string) list option"

record PaymentChannel =
  channel_id :: string
  payer_did :: string
  recipient_did :: string
  total_capacity :: decimal
  current_balance :: decimal
  currency :: string
  opened :: isotime
  expires :: isotime
  status :: string
  signature :: "string option"

record X402Response =
  status_code :: int
  message :: string
  payment_requirement :: "PaymentRequirement option"
  payment_methods_accepted :: "string list option"
  payment_endpoint :: "string option"

text \<open>
  \<^verbatim>\<open>PaymentManager\<close>: the three dicts in insertion order. \<^verbatim>\<open>storage_dir\<close> and
  \<^verbatim>\<open>wallet_addresses\<close> play no part in the operations modelled.
\<close>

record PaymentManager =
  node_did :: string
  payment_requirements :: "(string \<times> PaymentRequirement) list"
  payment_receipts :: "(string \<times> PaymentReceipt) list"
  payment_channels :: "(string \<times> PaymentChannel) list"

definition PaymentManager_init :: "string \<Rightarrow> PaymentManager" where
  "PaymentManager_init d =
     \<lparr>node_did = d, payment_requirements = [], payment_receipts = [], payment_channels = []\<rparr>"

text \<open>
  \<^verbatim>\<open>PaymentVerifier\<close>: one check per currency. The operations take the verifier as an
  argument; \<open>PaymentVerifier\<close> is the one of the source, whose four checks are
  placeholders that return \<^verbatim>\<open>True\<close>.
\<close>

record verifier =
  verify_bitcoin_payment :: "string \<Rightarrow> decimal \<Rightarrow> string \<Rightarrow> bool"
  verify_ethereum_payment :: "string \<Rightarrow> decimal \<Rightarrow> string \<Rightarrow> bool"
  verify_lightning_payment :: "string \<Rightarrow> decimal \<Rightarrow> bool"
  verify_arweave_payment :: "string \<Rightarrow> decimal \<Rightarrow> bool"

definition PaymentVerifier :: verifier where
  "PaymentVerifier =
     \<lparr>verify_bitcoin_payment = (\<lambda>tx_hash expected_amount recipient. True),
      verify_ethereum_payment = (\<lambda>tx_hash expected_amount recipient. True),
      verify_lightning_payment = (\<lambda>payment_hash expected_amount. True),
      verify_arweave_payment = (\<lambda>tx_id expected_amount. True)\<rparr>"

section \<open>psinet\_payment: operations\<close>

text \<open>
  \<^verbatim>\<open>PaymentRequirement.is_expired\<close>: no expiry means not expired; otherwise the \<^verbatim>\<open>"Z"\<close>
  is removed before the string is parsed.
\<close>

definition is_expired_requirement :: "int \<Rightarrow> PaymentRequirement \<Rightarrow> raised + bool" where
  "is_expired_requirement now r =
     (case PaymentRequirement.expires r of
        None \<Rightarrow> Inr False
      | Some s \<Rightarrow> utcnow_after now (strip_z s))"

text \<open>\<^verbatim>\<open>PaymentChannel.has_sufficient_balance\<close>\<close>

definition has_sufficient_balance :: "PaymentChannel \<Rightarrow> decimal \<Rightarrow> bool" where
  "has_sufficient_balance ch a = dec_ge (current_balance ch) a"

text \<open>
  \<^verbatim>\<open>PaymentManager.create_payment_requirement(context_id, pricing_model, amount,
  currency, recipient_address, expires_in_hours=24, description=None)\<close>
\<close>

definition create_payment_requirement ::
  "int \<Rightarrow> PaymentManager \<Rightarrow> string \<Rightarrow> PricingModel \<Rightarrow> decimal \<Rightarrow> PaymentMethod \<Rightarrow> string \<Rightarrow>
   int option \<Rightarrow> string option \<Rightarrow> PaymentRequirement \<times> PaymentManager" where
  "create_payment_requirement now m ctx_id pm amt cur recipient expires_in_hours descr =
     (let requirement =
            \<lparr>pricing_model = PricingModel_value pm,
             amount = amt,
             currency = PaymentMethod_value cur,
             recipient_address = recipient,
             expires = (case expires_in_hours of
                          None \<Rightarrow> None
                        | Some h \<Rightarrow> if h = 0 then None
                                    else Some (IsoTime (now + timedelta_hours h) True)),
             description = (if truthy descr then descr
                            else Some (''Payment for context '' @ take 16 ctx_id)),
             metadata = Some [(''context_id'', ctx_id)]\<rparr>
      in (requirement,
          m\<lparr>payment_requirements := AList.update ctx_id requirement (payment_requirements m)\<rparr>))"

text \<open>
  \<^verbatim>\<open>PaymentManager.create_payment_receipt(payment_requirement, payer_did,
  transaction_hash, context_id=None)\<close>; \<open>clock\<close> is the text of \<^verbatim>\<open>time.time()\<close> and
  \<open>obj\<close> the value of \<^verbatim>\<open>id(payment_requirement)\<close>.
\<close>

definition create_payment_receipt ::
  "pylib \<Rightarrow> string \<Rightarrow> int \<Rightarrow> int \<Rightarrow> PaymentManager \<Rightarrow> PaymentRequirement \<Rightarrow> string \<Rightarrow> string \<Rightarrow>
   string option \<Rightarrow> PaymentReceipt \<times> PaymentManager" where
  "create_payment_receipt L clock obj now m requirement payer tx ctx_id =
     (let receipt =
            \<lparr>receipt_id = sha256_hexdigest L (payer @ '':'' @ tx @ '':'' @ clock),
             payment_requirement_id = obj,
             payer_did = payer,
             recipient_did = node_did m,
             amount = PaymentRequirement.amount requirement,
             currency = PaymentRequirement.currency requirement,
             transaction_hash = tx,
             status = PaymentStatus_value PENDING,
             timestamp = IsoTime now True,
             context_id = ctx_id,
             signature = None,
             metadata = None\<rparr>
      in (receipt,
          m\<lparr>payment_receipts := AList.update (receipt_id receipt) receipt (payment_receipts m)\<rparr>))"

text \<open>
  \<^verbatim>\<open>PaymentManager.verify_payment(receipt)\<close>. The result is the value returned and the
  receipt as the call leaves it. The first loop picks the first registered requirement
  with the receipt's currency.
\<close>

definition verify_payment ::
  "verifier \<Rightarrow> PaymentManager \<Rightarrow> PaymentReceipt \<Rightarrow> bool \<times> PaymentReceipt" where
  "verify_payment V m receipt =
     (let cur = PaymentReceipt.currency receipt;
          tx_hash = transaction_hash receipt;
          amt = PaymentReceipt.amount receipt
      in case find (\<lambda>req. PaymentRequirement.currency req = cur)
                (map snd (payment_requirements m)) of
           None \<Rightarrow> (False, receipt)
         | Some requirement \<Rightarrow>
             let verified =
                   (if cur = PaymentMethod_value BITCOIN
                    then verify_bitcoin_payment V tx_hash amt (recipient_address requirement)
                    else if cur = PaymentMethod_value ETHEREUM
                    then verify_ethereum_payment V tx_hash amt (recipient_address requirement)
                    else if cur = PaymentMethod_value LIGHTNING
                    then verify_lightning_payment V tx_hash amt
                    else if cur = PaymentMethod_value ARWEAVE_AR
                    then verify_arweave_payment V tx_hash amt
                    else False)
             in if verified
                then (verified, receipt\<lparr>PaymentReceipt.status := PaymentStatus_value CONFIRMED\<rparr>)
                else (verified, receipt\<lparr>PaymentReceipt.status := PaymentStatus_value FAILED\<rparr>))"

text \<open>
  The loop over \<^verbatim>\<open>self.payment_channels.values()\<close> of
  \<^verbatim>\<open>check_payment_for_context\<close>: the first channel that passes the four tests has the
  amount subtracted (with \<^verbatim>\<open>Decimal\<close>'s subtraction, which rounds to the precision of
  the context) and the loop returns; \<open>None\<close> when the loop runs to its end.
\<close>

fun pay_from_channels ::
  "string \<Rightarrow> string \<Rightarrow> decimal \<Rightarrow> (string \<times> PaymentChannel) list \<Rightarrow>
   (string \<times> PaymentChannel) list option" where
  "pay_from_channels requester node a [] = None"
| "pay_from_channels requester node a ((k, ch) # rest) =
     (if PaymentChannel.payer_did ch = requester \<and>
         PaymentChannel.recipient_did ch = node \<and>
         PaymentChannel.status ch = ''open'' \<and>
         has_sufficient_balance ch a
      then Some ((k, ch\<lparr>current_balance := dec_sub (current_balance ch) a\<rparr>) # rest)
      else map_option (Cons (k, ch)) (pay_from_channels requester node a rest))"

text \<open>
  \<^verbatim>\<open>PaymentManager.check_payment_for_context(context_id, requester_did)\<close>: the response
  (\<open>None\<close> when access is granted) and the manager as the call leaves it.
\<close>

definition check_payment_for_context ::
  "int \<Rightarrow> PaymentManager \<Rightarrow> string \<Rightarrow> string \<Rightarrow> raised + (X402Response option \<times> PaymentManager)" where
  "check_payment_for_context now m ctx_id requester_did =
     (case map_of (payment_requirements m) ctx_id of
        None \<Rightarrow> Inr (None, m)
      | Some requirement \<Rightarrow>
          (case is_expired_requirement now requirement of
             Inl e \<Rightarrow> Inl e
           | Inr expired \<Rightarrow>
               if expired then Inr (None, m)
               else if list_ex (\<lambda>receipt.
                         PaymentReceipt.context_id receipt = Some ctx_id \<and>
                         PaymentReceipt.payer_did receipt = requester_did \<and>
                         PaymentReceipt.status receipt = PaymentStatus_value CONFIRMED)
                       (map snd (payment_receipts m))
               then Inr (None, m)
               else
                 (case pay_from_channels requester_did (node_did m)
                         (PaymentRequirement.amount requirement) (payment_channels m) of
                    Some chs \<Rightarrow> Inr (None, m\<lparr>payment_channels := chs\<rparr>)
                  | None \<Rightarrow>
                      Inr (Some \<lparr>status_code = 402,
                                 message = ''Payment Required'',
                                 payment_requirement = Some requirement,
                                 payment_methods_accepted =
                                   Some [PaymentMethod_value BITCOIN,
                                         PaymentMethod_value ETHEREUM,
                                         PaymentMethod_value LIGHTNING],
                                 payment_endpoint = Some (''psinet://payments/'' @ node_did m)\<rparr>,
                           m))))"

text \<open>
  \<^verbatim>\<open>PaymentManager.open_payment_channel(payer_did, total_capacity, currency,
  expires_in_days=30)\<close>; \<open>clock\<close> is the text of \<^verbatim>\<open>time.time()\<close>.
\<close>

definition open_payment_channel ::
  "pylib \<Rightarrow> string \<Rightarrow> int \<Rightarrow> PaymentManager \<Rightarrow> string \<Rightarrow> decimal \<Rightarrow> PaymentMethod \<Rightarrow> int \<Rightarrow>
   PaymentChannel \<times> PaymentManager" where
  "open_payment_channel L clock now m payer capacity cur expires_in_days =
     (let ch = \<lparr>channel_id = sha256_hexdigest L (payer @ '':'' @ node_did m @ '':'' @ clock),
                payer_did = payer,
                recipient_did = node_did m,
                total_capacity = capacity,
                current_balance = capacity,
                currency = PaymentMethod_value cur,
                opened = IsoTime now True,
                expires = IsoTime (now + timedelta_days expires_in_days) True,
                status = ''open'',
                signature = None\<rparr>
      in (ch, m\<lparr>payment_channels := AList.update (channel_id ch) ch (payment_channels m)\<rparr>))"

text \<open>\<^verbatim>\<open>PaymentManager.close_payment_channel(channel_id)\<close>\<close>

definition close_payment_channel :: "PaymentManager \<Rightarrow> string \<Rightarrow> PaymentManager" where
  "close_payment_channel m cid =
     (case map_of (payment_channels m) cid of
        None \<Rightarrow> m
      | Some ch \<Rightarrow>
          m\<lparr>payment_channels :=
              AList.update cid (ch\<lparr>PaymentChannel.status := ''closed''\<rparr>) (payment_channels m)\<rparr>)"

section \<open>Sequences of PaymentManager calls\<close>

text \<open>
  One call on a \<^verbatim>\<open>PaymentManager\<close>, with its arguments (and the clock readings of the
  call). \<open>VerifyPayment rid\<close> is \<^verbatim>\<open>verify_payment\<close> on the receipt object stored under
  \<open>rid\<close>: the dict holds that same object, so the status written by the call is seen
  in the store.
\<close>

datatype operation =
    CreatePaymentRequirement int string PricingModel decimal PaymentMethod string
      "int option" "string option"
  | CreatePaymentReceipt string int int PaymentRequirement string string "string option"
  | VerifyPayment string
  | CheckPaymentForContext int string string
  | OpenPaymentChannel string int string decimal PaymentMethod int
  | ClosePaymentChannel string

fun perform :: "pylib \<Rightarrow> verifier \<Rightarrow> PaymentManager \<Rightarrow> operation \<Rightarrow> PaymentManager" where
  "perform L V m (CreatePaymentRequirement now ctx_id pm amt cur recipient hours descr) =
     snd (create_payment_requirement now m ctx_id pm amt cur recipient hours descr)"
| "perform L V m (CreatePaymentReceipt clock obj now requirement payer tx ctx_id) =
     snd (create_payment_receipt L clock obj now m requirement payer tx ctx_id)"
| "perform L V m (VerifyPayment rid) =
     (case map_of (payment_receipts m) rid of
        None \<Rightarrow> m
      | Some receipt \<Rightarrow>
          m\<lparr>payment_receipts :=
              AList.update rid (snd (verify_payment V m receipt)) (payment_receipts m)\<rparr>)"
| "perform L V m (CheckPaymentForContext now ctx_id requester) =
     (case check_payment_for_context now m ctx_id requester of
        Inl e \<Rightarrow> m
      | Inr (resp, m') \<Rightarrow> m')"
| "perform L V m (OpenPaymentChannel clock now payer capacity cur days) =
     snd (open_payment_channel L clock now m payer capacity cur days)"
| "perform L V m (ClosePaymentChannel cid) = close_payment_channel m cid"

definition run :: "pylib \<Rightarrow> verifier \<Rightarrow> PaymentManager \<Rightarrow> operation list \<Rightarrow> PaymentManager" where
  "run L V m ops = foldl (perform L V) m ops"




section \<open>The properties, in the words of the specification\<close>





text \<open>A CONFIRMED receipt for the pair (context, requester) is in the store.\<close>

definition confirmed_receipt_exists :: "PaymentManager \<Rightarrow> string \<Rightarrow> string \<Rightarrow> bool" where
  "confirmed_receipt_exists m ctx_id requester =
     (\<exists>receipt \<in> snd ` set (payment_receipts m).
        PaymentReceipt.context_id receipt = Some ctx_id \<and>
        PaymentReceipt.payer_did receipt = requester \<and>
        PaymentReceipt.status receipt = ''confirmed'')"


text \<open>The requirement's expiry has passed at \<open>now\<close>.\<close>

definition expiry_passed :: "int \<Rightarrow> PaymentRequirement \<Rightarrow> bool" where
  "expiry_passed now r =
     (case PaymentRequirement.expires r of None \<Rightarrow> False | Some s \<Rightarrow> instant s < now)"





text \<open>The 402 response that carries requirement \<open>r\<close>.\<close>

definition payment_required :: "PaymentManager \<Rightarrow> PaymentRequirement \<Rightarrow> X402Response" where
  "payment_required m r =
     \<lparr>status_code = 402,
      message = ''Payment Required'',
      payment_requirement = Some r,
      payment_methods_accepted = Some [''bitcoin'', ''ethereum'', ''lightning''],
      payment_endpoint = Some (''psinet://payments/'' @ node_did m)\<rparr>"

text \<open>
  One unit of a chain passes: it is in the store, its \<^verbatim>\<open>previous\<close> is the expected
  pointer, and its id is its recomputed content hash.
\<close>

definition unit_passes ::
  "pylib \<Rightarrow> (string \<times> ContextUnit) list \<Rightarrow> string option \<Rightarrow> string \<Rightarrow> bool" where
  "unit_passes L store expected i =
     (case map_of store i of
        None \<Rightarrow> False
      | Some c \<Rightarrow> previous c = expected \<and> unit_id c = content_hash L c)"

text \<open>The expected-previous pointer at position \<open>n\<close> of the sequence: null first, then the id before.\<close>

definition expected_previous :: "string list \<Rightarrow> nat \<Rightarrow> string option" where
  "expected_previous ids n = (if n = 0 then None else Some (ids ! (n - 1)))"

definition chain_intact :: "pylib \<Rightarrow> (string \<times> ContextUnit) list \<Rightarrow> string list \<Rightarrow> bool" where
  "chain_intact L store ids =
     (\<forall>n < length ids. unit_passes L store (expected_previous ids n) (ids ! n))"

text \<open>
  The check for a currency, when the code has one: the recipient address is passed to
  the Bitcoin and Ethereum checks only.
\<close>

definition verifier_for ::
  "verifier \<Rightarrow> string \<Rightarrow> (string \<Rightarrow> decimal \<Rightarrow> string \<Rightarrow> bool) option" where
  "verifier_for V cur =
     (if cur = ''bitcoin'' then Some (verify_bitcoin_payment V)
      else if cur = ''ethereum'' then Some (verify_ethereum_payment V)
      else if cur = ''lightning'' then Some (\<lambda>tx a addr. verify_lightning_payment V tx a)
      else if cur = ''arweave_ar'' then Some (\<lambda>tx a addr. verify_arweave_payment V tx a)
      else None)"

definition verification_succeeds :: "verifier \<Rightarrow> PaymentRequirement \<Rightarrow> PaymentReceipt \<Rightarrow> bool" where
  "verification_succeeds V q receipt =
     (case verifier_for V (PaymentReceipt.currency receipt) of
        None \<Rightarrow> False
      | Some check \<Rightarrow>
          check (transaction_hash receipt) (PaymentReceipt.amount receipt) (recipient_address q))"

section \<open>Example data\<close>

text \<open>
  A stand-in for the library, used only to evaluate the examples: the encoder writes
  enough of a JSON text to tell the example payloads apart, and the digest of a text
  is the text itself.
\<close>

fun example_encode :: "json \<Rightarrow> string" where
  "example_encode JNull = ''null''"
| "example_encode (JBool b) = (if b then ''true'' else ''false'')"
| "example_encode (JInt i) = ''#''"
| "example_encode (JString s) = ''<'' @ s @ ''>''"
| "example_encode (JArray xs) = ''['' @ concat (map (\<lambda>x. example_encode x @ '','') xs) @ '']''"
| "example_encode (JObject kvs) =
     ''{'' @ concat (map (\<lambda>(k, v). k @ '':'' @ example_encode v @ '','') kvs) @ ''}''"

definition example_lib :: pylib where
  "example_lib = \<lparr>json_encode = example_encode, sha256_hexdigest = (\<lambda>s. s)\<rparr>"

definition example_node :: PsiNetNode where
  "example_node =
     \<lparr>did = Some ''did:psinet:abc'', private_key = None, contexts = [], chains = [],
      access_tokens = []\<rparr>"

definition example_token :: AccessToken where
  "example_token =
     \<lparr>capability = ''read'', granted_to = ''did:psinet:b'', granted_by = ''did:psinet:abc'',
      expires = IsoTime 100 False, context_id = Some ''ctx-1'', signature = None\<rparr>"

text \<open>
  Two units as \<^verbatim>\<open>create_context\<close> makes them (the second linked to the first), a chain
  over them, and the same store with the second unit's \<^verbatim>\<open>previous\<close> reset to null.
\<close>

definition example_unit_a :: ContextUnit where
  "example_unit_a =
     \<lparr>unit_id = ''{content:{memory:<x>,},owner:<did:psinet:abc>,previous:null,timestamp:<t1>,type:<memory>,}'',
      unit_type = ''memory'',
      content = JObject [(''memory'', JString ''x'')],
      ContextUnit.owner = ''did:psinet:abc'',
      previous = None,
      ContextUnit.timestamp = ''t1'',
      ContextUnit.signature = None,
      ContextUnit.metadata = Some [],
      storage_refs = Some []\<rparr>"

definition example_unit_b :: ContextUnit where
  "example_unit_b =
     (let b0 = \<lparr>unit_id = [],
                unit_type = ''memory'',
                content = JObject [(''memory'', JString ''y'')],
                ContextUnit.owner = ''did:psinet:abc'',
                previous = Some (unit_id example_unit_a),
                ContextUnit.timestamp = ''t2'',
                ContextUnit.signature = None,
                ContextUnit.metadata = Some [],
                storage_refs = Some []\<rparr>
      in b0\<lparr>unit_id := content_hash example_lib b0\<rparr>)"

definition example_chain :: ContextChain where
  "example_chain =
     \<lparr>chain_id = ''chain-1'',
      ContextChain.contexts = [unit_id example_unit_a, unit_id example_unit_b],
      ContextChain.owner = ''did:psinet:abc'',
      created = ''t3''\<rparr>"

definition example_ledger :: PsiNetNode where
  "example_ledger =
     example_node\<lparr>PsiNetNode.contexts :=
                    [(unit_id example_unit_a, example_unit_a),
                     (unit_id example_unit_b, example_unit_b)],
                  chains := [(''chain-1'', example_chain)]\<rparr>"

definition example_ledger_relinked :: PsiNetNode where
  "example_ledger_relinked =
     example_node\<lparr>PsiNetNode.contexts :=
                    [(unit_id example_unit_a, example_unit_a),
                     (unit_id example_unit_b, example_unit_b\<lparr>previous := None\<rparr>)],
                  chains := [(''chain-1'', example_chain)]\<rparr>"


text \<open>
  The scenario of the demo: a price of 0.0001 with no expiry on \<open>ctx-1\<close>, a price of
  0.02 on \<open>ctx-2\<close>, and a channel of capacity 0.01 from the consumer, opened at time 0
  for 30 days.
\<close>

definition example_requirement :: PaymentRequirement where
  "example_requirement =
     \<lparr>pricing_model = ''pay_per_access'', PaymentRequirement.amount = Dec 1 (- 4),
      PaymentRequirement.currency = ''bitcoin'', recipient_address = ''addr'',
      PaymentRequirement.expires = None,
      description = Some ''Payment for context ctx-1'',
      PaymentRequirement.metadata = Some [(''context_id'', ''ctx-1'')]\<rparr>"

definition example_channel :: PaymentChannel where
  "example_channel =
     \<lparr>channel_id = ''did:psinet:consumer:did:psinet:node:1.5'',
      PaymentChannel.payer_did = ''did:psinet:consumer'',
      PaymentChannel.recipient_did = ''did:psinet:node'',
      total_capacity = Dec 1 (- 2),
      current_balance = Dec 1 (- 2),
      PaymentChannel.currency = ''bitcoin'',
      opened = IsoTime 0 True,
      PaymentChannel.expires = IsoTime 2592000000000 True,
      PaymentChannel.status = ''open'',
      PaymentChannel.signature = None\<rparr>"

definition example_manager :: PaymentManager where
  "example_manager =
     run example_lib PaymentVerifier (PaymentManager_init ''did:psinet:node'')
       [CreatePaymentRequirement 0 ''ctx-1'' PAY_PER_ACCESS (Dec 1 (- 4)) BITCOIN ''addr'' None None,
        CreatePaymentRequirement 0 ''ctx-2'' PAY_PER_ACCESS (Dec 2 (- 2)) BITCOIN ''addr'' (Some 24) None,
        OpenPaymentChannel ''1.5'' 0 ''did:psinet:consumer'' (Dec 1 (- 2)) BITCOIN 30]"

definition example_receipt :: PaymentReceipt where
  "example_receipt =
     fst (create_payment_receipt example_lib ''2.5'' 7 1 (PaymentManager_init ''did:psinet:node'')
            example_requirement ''did:psinet:consumer'' ''tx-1'' (Some ''ctx-1''))"





section \<open>Access checks\<close>

lemma check_access_raises_on_z:
  "z_suffix (AccessToken.expires token) \<Longrightarrow> check_access now token cap q = Inl DatetimeError"
  by (simp add: check_access_def is_expired_def utcnow_after_def)

lemma grant_access_z_suffix:
  "grant_access L ca now txt node cap to ctx h = Inr (t, node') \<Longrightarrow>
   z_suffix (AccessToken.expires t)"
  by (auto simp: grant_access_def Let_def split: option.splits if_splits)

text \<open>
  Whatever the expiry string looks like, a token that is past its expiry, or has another
  capability, or is bound to another context than the one named, is never let through;
  and when the string has no \<^verbatim>\<open>"Z"\<close> the answer is \<^verbatim>\<open>False\<close>.
\<close>

lemma check_access_fails_closed:
  assumes "instant (AccessToken.expires token) < now \<or>
           AccessToken.capability token \<noteq> AccessCapability_value cap \<or>
           (truthy q \<and> AccessToken.context_id token \<noteq> q)"
  shows "check_access now token cap q \<noteq> Inr True"
  using assms by (auto simp: check_access_def is_expired_def utcnow_after_def split: sum.splits)

lemma check_access_false_without_z:
  assumes "\<not> z_suffix (AccessToken.expires token)"
      and "instant (AccessToken.expires token) < now \<or>
           AccessToken.capability token \<noteq> AccessCapability_value cap \<or>
           (truthy q \<and> AccessToken.context_id token \<noteq> q)"
  shows "check_access now token cap q = Inr False"
  using assms by (auto simp: check_access_def is_expired_def utcnow_after_def split: sum.splits)

lemma admin_does_not_satisfy_read:
  "AccessCapability_value ADMIN \<noteq> AccessCapability_value READ"
  by simp

text \<open>
  C5 (check fails closed by returning false). On a token written by \<^verbatim>\<open>grant_access\<close>
  the check does not return: the expiry string ends in \<^verbatim>\<open>"Z"\<close>, \<^verbatim>\<open>is_expired\<close> parses it
  as it is, and the call raises, before and after the expiry, for the matching and for
  a different capability. The token below is granted for WRITE at time 0 for 24 hours.
\<close>

theorem check_access_granted_token_raises:
  "(case grant_access example_lib False 0 ''1970-01-02T00:00:00Z'' example_node WRITE
           ''did:psinet:b'' None 24 of
      Inl e \<Rightarrow> False
    | Inr (t, n) \<Rightarrow>
        AccessToken.capability t = ''write'' \<and>
        check_access (timedelta_hours 25) t READ None = Inl DatetimeError \<and>
        check_access (timedelta_hours 25) t WRITE None = Inl DatetimeError \<and>
        check_access (timedelta_hours 1) t WRITE None = Inl DatetimeError)"
  by (simp add: grant_access_def example_node_def check_access_def is_expired_def
        utcnow_after_def timedelta_hours_def Let_def)

text \<open>
  C6 as stated fails: an unexpired token with the matching capability and no bound
  context is refused when the check names a context.
\<close>

theorem unbound_token_rejects_named_context:
  "is_expired 50 (example_token\<lparr>AccessToken.context_id := None\<rparr>) = Inr False \<and>
   AccessToken.capability (example_token\<lparr>AccessToken.context_id := None\<rparr>) =
     AccessCapability_value READ \<and>
   AccessToken.context_id (example_token\<lparr>AccessToken.context_id := None\<rparr>) = None \<and>
   check_access 50 (example_token\<lparr>AccessToken.context_id := None\<rparr>) READ (Some ''ctx-1'') =
     Inr False"
  by (simp add: check_access_def is_expired_def utcnow_after_def example_token_def truthy_def)

text \<open>
  C6, amended: for an unexpired token with the matching capability and no bound context,
  the check returns true exactly when it names no context (the argument is \<^verbatim>\<open>None\<close> or
  the empty string); for every non-empty context id it returns false.
\<close>

theorem check_access_unbound_token:
  assumes "is_expired now token = Inr False"
      and "AccessToken.capability token = AccessCapability_value cap"
      and "AccessToken.context_id token = None"
  shows "check_access now token cap q = Inr (\<not> truthy q)"
  using assms by (cases q) (auto simp: check_access_def truthy_def)

theorem check_access_unbound_token_witness:
  "check_access 50 (example_token\<lparr>AccessToken.context_id := None\<rparr>) READ (Some ''ctx-2'') =
     Inr False \<and>
   check_access 50 (example_token\<lparr>AccessToken.context_id := None\<rparr>) READ None = Inr True \<and>
   check_access 50 (example_token\<lparr>AccessToken.context_id := None\<rparr>) READ (Some []) = Inr True"
proof -
  let ?t = "example_token\<lparr>AccessToken.context_id := None\<rparr>"
  have e: "is_expired 50 ?t = Inr False"
    by (simp add: is_expired_def utcnow_after_def example_token_def)
  have c: "AccessToken.capability ?t = AccessCapability_value READ"
    by (simp add: example_token_def)
  have n: "AccessToken.context_id ?t = None" by simp
  show ?thesis
    using check_access_unbound_token [OF e c n, of "Some ''ctx-2''"]
          check_access_unbound_token [OF e c n, of None]
          check_access_unbound_token [OF e c n, of "Some []"]
    by (simp add: truthy_def)
qed

text \<open>
  A check that names no context does not compare the token's bound context: when the
  expiry test answers \<^verbatim>\<open>False\<close> and the capability matches, it passes.
\<close>

lemma check_access_without_context:
  assumes "is_expired now token = Inr False"
      and "AccessToken.capability token = AccessCapability_value cap"
  shows "check_access now token cap None = Inr True"
  using assms by (simp add: check_access_def truthy_def)

text \<open>
  C10 (every unexpired token with the matching capability passes a check that names no
  context). A token issued by \<^verbatim>\<open>grant_access\<close> for READ on one context, one hour into its
  24 hours, does not pass the check without a context: the expiry string ends in
  \<^verbatim>\<open>"Z"\<close> and the call raises before the capability and the context are looked at.
\<close>

theorem unscoped_check_raises_on_granted_token:
  "(case grant_access example_lib False 0 ''1970-01-02T00:00:00Z'' example_node READ
           ''did:psinet:b'' (Some ''ctx-1'') 24 of
      Inl e \<Rightarrow> False
    | Inr (t, n) \<Rightarrow>
        AccessToken.capability t = AccessCapability_value READ \<and>
        AccessToken.context_id t = Some ''ctx-1'' \<and>
        timedelta_hours 1 < instant (AccessToken.expires t) \<and>
        check_access (timedelta_hours 1) t READ None = Inl DatetimeError)"
  by (simp add: grant_access_def example_node_def check_access_def is_expired_def
        utcnow_after_def timedelta_hours_def Let_def)

section \<open>Context units and chains\<close>

lemma sorted_payload:
  "sort_keys (JObject [(''type'', JString ty), (''content'', c), (''owner'', JString ow),
                       (''previous'', json_opt pr), (''timestamp'', JString ts)]) =
   JObject [(''content'', sort_keys c), (''owner'', JString ow), (''previous'', json_opt pr),
            (''timestamp'', JString ts), (''type'', JString ty)]"
  by (cases pr) (simp_all add: json_opt_def)

lemma content_hash_sorted:
  "content_hash L u =
     sha256_hexdigest L (json_encode L (JObject
       [(''content'', sort_keys (content u)),
        (''owner'', JString (ContextUnit.owner u)),
        (''previous'', json_opt (previous u)),
        (''timestamp'', JString (ContextUnit.timestamp u)),
        (''type'', JString (unit_type u))]))"
  unfolding content_hash_def json_dumps_sorted_def sorted_payload ..

lemma content_hash_fields:
  assumes "unit_type v = unit_type u" "content v = content u"
    "ContextUnit.owner v = ContextUnit.owner u" "previous v = previous u" "ContextUnit.timestamp v = ContextUnit.timestamp u"
  shows "content_hash L v = content_hash L u"
  using assms by (simp add: content_hash_def)

text \<open>
  C3: the id of a unit made by \<^verbatim>\<open>create_context\<close> is the digest of the serialisation,
  keys in sorted order, of exactly the fields content, owner, previous, timestamp and
  type, and it is the unit's recomputed content hash; the unit is stored under that id.
\<close>

theorem create_context_id:
  assumes "create_context L ca ts node ty cont prev meta = Inr (u, node')"
  shows "unit_id u = content_hash L u \<and>
         unit_id u = sha256_hexdigest L (json_encode L (JObject
           [(''content'', sort_keys cont),
            (''owner'', JString (ContextUnit.owner u)),
            (''previous'', json_opt prev),
            (''timestamp'', JString ts),
            (''type'', JString (ContextType_value ty))])) \<and>
         did node = Some (ContextUnit.owner u) \<and>
         map_of (PsiNetNode.contexts node') (unit_id u) = Some u"
  using assms
  by (auto simp: create_context_def Let_def content_hash_sorted update_Some_unfold
           split: option.splits if_splits sum.splits)

theorem create_context_id_witness:
  "create_context example_lib False ''t1'' example_node MEMORY (JObject [(''memory'', JString ''x'')])
     None None =
     Inr (example_unit_a,
          example_node\<lparr>PsiNetNode.contexts := [(unit_id example_unit_a, example_unit_a)]\<rparr>) \<and>
   unit_id example_unit_a = content_hash example_lib example_unit_a"
proof -
  have c: "create_context example_lib False ''t1'' example_node MEMORY
             (JObject [(''memory'', JString ''x'')]) None None =
           Inr (example_unit_a,
                example_node\<lparr>PsiNetNode.contexts := [(unit_id example_unit_a, example_unit_a)]\<rparr>)"
    by (simp add: create_context_def example_node_def example_unit_a_def Let_def
          content_hash_sorted example_lib_def json_opt_def)
  from create_context_id [OF c] c show ?thesis by simp
qed

lemma verify_walk_unit_passes:
  "verify_walk L store p (i # rest) = (unit_passes L store p i \<and> verify_walk L store (Some i) rest)"
  by (auto simp: unit_passes_def split: option.splits)

lemma verify_walk_iff:
  "verify_walk L store p ids =
     (\<forall>n < length ids. unit_passes L store (if n = 0 then p else Some (ids ! (n - 1))) (ids ! n))"
proof (induction ids arbitrary: p)
  case Nil
  show ?case by simp
next
  case (Cons i rest)
  have "(\<forall>n < length (i # rest).
           unit_passes L store (if n = 0 then p else Some ((i # rest) ! (n - 1))) ((i # rest) ! n)) =
        (unit_passes L store p i \<and>
         (\<forall>n < length rest.
            unit_passes L store (if n = 0 then Some i else Some (rest ! (n - 1))) (rest ! n)))"
  proof (rule iffI, goal_cases)
    case 1
    have a: "unit_passes L store p i" using 1 [rule_format, of 0] by simp
    have b: "unit_passes L store (if n = 0 then Some i else Some (rest ! (n - 1))) (rest ! n)"
      if "n < length rest" for n
      using 1 [rule_format, of "Suc n"] that by (cases n) auto
    from a b show ?case by blast
  next
    case 2
    show ?case
    proof (intro allI impI)
      fix n assume "n < length (i # rest)"
      then show "unit_passes L store (if n = 0 then p else Some ((i # rest) ! (n - 1)))
                   ((i # rest) ! n)"
        using 2 by (cases n) (auto split: if_splits simp: nth_Cons')
    qed
  qed
  then show ?case
    unfolding verify_walk_unit_passes Cons.IH by simp
qed

lemma verify_walk_append:
  "verify_walk L store p (xs @ ys) =
     (verify_walk L store p xs \<and> verify_walk L store (if xs = [] then p else Some (last xs)) ys)"
proof (induction xs arbitrary: p)
  case Nil
  show ?case by simp
next
  case (Cons x xs)
  show ?case unfolding append_Cons verify_walk_unit_passes Cons.IH by auto
qed

lemma verify_walk_violation:
  assumes "n < length ids"
      and "\<not> unit_passes L store (expected_previous ids n) (ids ! n)"
  shows "verify_walk L store None (take (Suc n) ids @ later) = False"
proof -
  have "\<not> verify_walk L store None (take (Suc n) ids)"
  proof
    assume "verify_walk L store None (take (Suc n) ids)"
    then have "unit_passes L store (if n = 0 then None else Some (take (Suc n) ids ! (n - 1)))
                 (take (Suc n) ids ! n)"
      unfolding verify_walk_iff using assms(1) by simp
    with assms show False by (cases n) (simp_all add: expected_previous_def)
  qed
  then show ?thesis by (simp add: verify_walk_append)
qed

lemma verify_chain_missing:
  "map_of (chains node) cid = None \<Longrightarrow> verify_chain L node cid = False"
  by (simp add: verify_chain_def)

text \<open>
  C4: for a chain that is registered, \<^verbatim>\<open>verify_chain\<close> is true exactly when every listed
  unit is in the store, has the id before it as its \<^verbatim>\<open>previous\<close> (null for the first) and
  has its recomputed content hash as its id; and once a unit fails, the walk is false
  whatever ids come after it.
\<close>

theorem verify_chain_iff:
  assumes "map_of (chains node) cid = Some chain"
  shows "verify_chain L node cid =
           chain_intact L (PsiNetNode.contexts node) (ContextChain.contexts chain) \<and>
         (\<forall>n later.
            n < length (ContextChain.contexts chain) \<and>
            \<not> unit_passes L (PsiNetNode.contexts node)
                 (expected_previous (ContextChain.contexts chain) n)
                 (ContextChain.contexts chain ! n) \<longrightarrow>
            verify_walk L (PsiNetNode.contexts node) None
              (take (Suc n) (ContextChain.contexts chain) @ later) = False)"
proof
  show "verify_chain L node cid =
          chain_intact L (PsiNetNode.contexts node) (ContextChain.contexts chain)"
    using assms by (simp add: verify_chain_def verify_walk_iff chain_intact_def expected_previous_def)
  show "\<forall>n later.
            n < length (ContextChain.contexts chain) \<and>
            \<not> unit_passes L (PsiNetNode.contexts node)
                 (expected_previous (ContextChain.contexts chain) n)
                 (ContextChain.contexts chain ! n) \<longrightarrow>
            verify_walk L (PsiNetNode.contexts node) None
              (take (Suc n) (ContextChain.contexts chain) @ later) = False"
    using verify_walk_violation by blast
qed

lemma example_ids:
  "unit_id example_unit_a = content_hash example_lib example_unit_a"
  "unit_id example_unit_b = content_hash example_lib example_unit_b"
  "unit_id example_unit_b \<noteq> unit_id example_unit_a"
  by (simp_all add: example_unit_a_def example_unit_b_def content_hash_sorted example_lib_def
        json_opt_def Let_def)

theorem verify_chain_iff_witness:
  "map_of (chains example_ledger) ''chain-1'' = Some example_chain \<and>
   verify_chain example_lib example_ledger ''chain-1'' \<and>
   chain_intact example_lib (PsiNetNode.contexts example_ledger) (ContextChain.contexts example_chain) \<and>
   map_of (chains example_ledger_relinked) ''chain-1'' = Some example_chain \<and>
   \<not> verify_chain example_lib example_ledger_relinked ''chain-1'' \<and>
   \<not> chain_intact example_lib (PsiNetNode.contexts example_ledger_relinked)
        (ContextChain.contexts example_chain)"
proof -
  have m: "map_of (chains example_ledger) ''chain-1'' = Some example_chain"
    by (simp add: example_ledger_def)
  have m': "map_of (chains example_ledger_relinked) ''chain-1'' = Some example_chain"
    by (simp add: example_ledger_relinked_def)
  have pb: "previous example_unit_b = Some (unit_id example_unit_a)"
    by (simp add: example_unit_b_def Let_def)
  have pa: "previous example_unit_a = None"
    by (simp add: example_unit_a_def)
  have v: "verify_chain example_lib example_ledger ''chain-1''"
    using example_ids pa pb
    by (simp add: verify_chain_def example_ledger_def example_chain_def)
  have v': "\<not> verify_chain example_lib example_ledger_relinked ''chain-1''"
    using example_ids pa
    by (simp add: verify_chain_def example_ledger_relinked_def example_chain_def)
  from verify_chain_iff [OF m, of example_lib] verify_chain_iff [OF m', of example_lib] m m' v v'
  show ?thesis by simp
qed

section \<open>Decimal arithmetic\<close>






lemma round_half_even_ge: "0 < g \<Longrightarrow> M * g \<le> m \<Longrightarrow> M \<le> round_half_even m g"
proof -
  assume g: "0 < g" and m: "M * g \<le> m"
  have "M \<le> m div g" using g m by (metis div_le_mono div_mult_self_is_m)
  then show ?thesis by (auto simp: round_half_even_def Let_def)
qed






















lemma dec_sub_examples:
  "dec_sub (Dec 1 0) (Dec 1 (- 29)) = Dec 1000000000000000000000000000 (- 27)"
  "dec_sub (Dec 9999999999999999999999999999999 (- 31)) (Dec 0 0) =
     Dec 1000000000000000000000000000 (- 27)"
  "dec_sub (Dec 1 (- 2)) (Dec 1 (- 4)) = Dec 99 (- 4)"
  "dec_ge (Dec 1 0) (Dec 1 (- 29))"
  by (simp_all add: dec_sub_def exact_sub_def fix_prec_def Let_def prec_def ndigits.simps
        round_half_even_def dec_ge_def)


section \<open>Payment gate\<close>

lemmas dec_eval =
  dec_sub_def exact_sub_def fix_prec_def prec_def ndigits.simps round_half_even_def dec_ge_def
  Let_def

lemma example_manager_eq:
  "example_manager =
     \<lparr>node_did = ''did:psinet:node'',
      payment_requirements =
        [(''ctx-1'', example_requirement),
         (''ctx-2'', example_requirement
            \<lparr>PaymentRequirement.amount := Dec 2 (- 2),
             PaymentRequirement.expires := Some (IsoTime 86400000000 True),
             description := Some ''Payment for context ctx-2'',
             PaymentRequirement.metadata := Some [(''context_id'', ''ctx-2'')]\<rparr>)],
      payment_receipts = [],
      payment_channels = [(channel_id example_channel, example_channel)]\<rparr>"
  by (simp add: example_manager_def run_def PaymentManager_init_def create_payment_requirement_def
        open_payment_channel_def example_lib_def example_requirement_def example_channel_def
        timedelta_hours_def timedelta_days_def truthy_def Let_def)

lemma is_expired_requirement_eq:
  "is_expired_requirement now r = Inr (expiry_passed now r)"
  by (simp add: is_expired_requirement_def expiry_passed_def utcnow_after_def strip_z_def
           split: option.splits)

lemma confirmed_receipt_exists_eq:
  "list_ex (\<lambda>receipt.
       PaymentReceipt.context_id receipt = Some ctx_id \<and>
       PaymentReceipt.payer_did receipt = requester \<and>
       PaymentReceipt.status receipt = ''confirmed'')
     (map snd (payment_receipts m)) = confirmed_receipt_exists m ctx_id requester"
  by (auto simp: confirmed_receipt_exists_def list_ex_iff)




lemma check_payment_for_context_cases:
  "check_payment_for_context now m ctx_id requester =
     (case map_of (payment_requirements m) ctx_id of
        None \<Rightarrow> Inr (None, m)
      | Some r \<Rightarrow>
          if expiry_passed now r \<or> confirmed_receipt_exists m ctx_id requester then Inr (None, m)
          else (case pay_from_channels requester (node_did m) (PaymentRequirement.amount r)
                       (payment_channels m) of
                  Some chs \<Rightarrow> Inr (None, m\<lparr>payment_channels := chs\<rparr>)
                | None \<Rightarrow> Inr (Some (payment_required m r), m)))"
  by (simp add: check_payment_for_context_def is_expired_requirement_eq
        confirmed_receipt_exists_eq payment_required_def split: option.splits)





lemma example_check_ctx1:
  "check_payment_for_context now example_manager ''ctx-1'' ''did:psinet:consumer'' =
     Inr (None, example_manager\<lparr>payment_channels :=
            [(channel_id example_channel, example_channel\<lparr>current_balance := Dec 99 (- 4)\<rparr>)]\<rparr>)"
  by (simp add: check_payment_for_context_cases example_manager_eq expiry_passed_def
        confirmed_receipt_exists_def example_requirement_def example_channel_def
        has_sufficient_balance_def dec_eval)


text \<open>
  C7 (an expired channel is never deducted from). The code never reads a channel's
  \<^verbatim>\<open>expires\<close>: 31 days after the 30-day channel of the example was opened, the check
  still grants access and takes the price from it.
\<close>

theorem expired_channel_still_charged:
  "instant (PaymentChannel.expires example_channel) < timedelta_days 31 \<and>
   map_of (payment_channels example_manager) (channel_id example_channel) = Some example_channel \<and>
   check_payment_for_context (timedelta_days 31) example_manager ''ctx-1'' ''did:psinet:consumer'' =
     Inr (None, example_manager\<lparr>payment_channels :=
            [(channel_id example_channel, example_channel\<lparr>current_balance := Dec 99 (- 4)\<rparr>)]\<rparr>)"
  using example_check_ctx1 [of "timedelta_days 31"]
  by (simp add: example_manager_eq example_channel_def timedelta_days_def)

lemma create_payment_receipt_pending:
  "PaymentReceipt.status (fst (create_payment_receipt L clock obj now m q payer tx ctx_id)) = ''pending''"
  by (simp add: create_payment_receipt_def Let_def)

text \<open>
  C8 as stated fails: when no registered requirement has the receipt's currency,
  \<^verbatim>\<open>verify_payment\<close> returns \<^verbatim>\<open>False\<close> before it writes a status, and a PENDING receipt
  is still PENDING after the call.
\<close>

theorem receipt_stays_pending:
  "PaymentReceipt.status example_receipt = ''pending'' \<and>
   verify_payment PaymentVerifier (PaymentManager_init ''did:psinet:node'') example_receipt =
     (False, example_receipt) \<and>
   PaymentReceipt.status
     (snd (verify_payment PaymentVerifier (PaymentManager_init ''did:psinet:node'') example_receipt)) =
     ''pending''"
  by (simp add: example_receipt_def create_payment_receipt_def verify_payment_def
        PaymentManager_init_def Let_def)

text \<open>
  C8, amended: a receipt is created PENDING. \<^verbatim>\<open>verify_payment\<close>, when some registered
  requirement has the receipt's currency, sets the status to CONFIRMED exactly when the
  check for that currency succeeds and to FAILED otherwise (also for a currency that has
  no check), and returns that outcome; when no registered requirement has the
  receipt's currency it returns \<^verbatim>\<open>False\<close> and leaves the receipt as it was.
\<close>

theorem verify_payment_status:
  "PaymentReceipt.status (fst (create_payment_receipt L clock obj now m q payer tx ctx_id)) =
     ''pending'' \<and>
   (case find (\<lambda>req. PaymentRequirement.currency req = PaymentReceipt.currency receipt)
           (map snd (payment_requirements m)) of
      None \<Rightarrow> verify_payment V m receipt = (False, receipt)
    | Some req \<Rightarrow>
        verify_payment V m receipt =
          (verification_succeeds V req receipt,
           receipt\<lparr>PaymentReceipt.status :=
             (if verification_succeeds V req receipt then ''confirmed'' else ''failed'')\<rparr>))"
  by (auto simp: create_payment_receipt_def verify_payment_def verification_succeeds_def
        verifier_for_def Let_def split: option.splits)

text \<open>With the checks of the source, verification succeeds for the four currencies that have one.\<close>

lemma PaymentVerifier_succeeds:
  "verification_succeeds PaymentVerifier req receipt =
     (PaymentReceipt.currency receipt \<in> {''bitcoin'', ''ethereum'', ''lightning'', ''arweave_ar''})"
  by (simp add: verification_succeeds_def verifier_for_def PaymentVerifier_def)























end
